theory Spec2Isabelle
  imports Main
begin

section \<open>Python string helpers\<close>

text \<open>
  A Python \<open>str\<close> is modelled as a \<open>string\<close>; a \<open>char\<close> stands for a code point below 256.
  \<open>py_isspace\<close> is \<open>str.isspace\<close> on such a code point: the characters that \<open>strip()\<close> and
  \<open>rstrip()\<close> remove when called without an argument (tab to carriage return, the four
  separators 28 to 31, the space, NEL and the no-break space).
\<close>

definition py_isspace :: "char \<Rightarrow> bool" where
  "py_isspace c = ((of_char c :: nat) \<in> {9..13} \<union> {28..32} \<union> {133, 160})"

definition py_lstrip :: "string \<Rightarrow> string" where
  "py_lstrip s = dropWhile py_isspace s"

definition py_rstrip :: "string \<Rightarrow> string" where
  "py_rstrip s = rev (dropWhile py_isspace (rev s))"

definition py_strip :: "string \<Rightarrow> string" where
  "py_strip s = py_lstrip (py_rstrip s)"

text \<open>\<open>s.rstrip("\n")\<close>: only trailing line feeds are removed.\<close>

definition rstrip_newline :: "string \<Rightarrow> string" where
  "rstrip_newline s = rev (dropWhile (\<lambda>c. c = CHR 0x0A) (rev s))"

text \<open>\<open>sep.join(xs)\<close>.\<close>

fun py_join :: "string \<Rightarrow> string list \<Rightarrow> string" where
  "py_join sep [] = []"
| "py_join sep [x] = x"
| "py_join sep (x # y # ys) = x @ sep @ py_join sep (y # ys)"

text \<open>
  \<open>a or b\<close> for an optional integer \<open>a\<close> and an integer \<open>b\<close>: \<open>None\<close> and \<open>0\<close> are falsy.
\<close>

definition py_or :: "int option \<Rightarrow> int \<Rightarrow> int" where
  "py_or a b = (case a of None \<Rightarrow> b | Some n \<Rightarrow> if n \<noteq> 0 then n else b)"

section \<open>The objects of the diff library\<close>

text \<open>
  \<open>diff_parser.py\<close> builds its results from the objects of the third-party \<open>unidiff\<close>
  package, whose code is not part of the repository. The objects are modelled as plain
  data with the attributes the repository reads: a \<open>PatchSet\<close> is a list of
  \<open>PatchedFile\<close>, a \<open>PatchedFile\<close> is a list of \<open>Hunk\<close> with header attributes, a \<open>Hunk\<close>
  is a list of \<open>Line\<close>. The read-only properties \<open>path\<close>, \<open>is_rename\<close>, \<open>is_added_file\<close>
  and \<open>is_removed_file\<close> are fields holding whatever the library answers.
\<close>

record Line =
  line_value :: string
  line_type :: string
  source_line_no :: "int option"
  target_line_no :: "int option"

text \<open>
  Modelled from the spec: the library's \<open>Line.is_added\<close> and \<open>Line.is_removed\<close> properties
  are missing from the sources. The spec classifies a line by its leading marker
  character, \<open>+\<close> as added and \<open>-\<close> as removed, anything else as context; the marker is
  the line's \<open>line_type\<close>.
\<close>

definition is_added :: "Line \<Rightarrow> bool" where
  "is_added l = (line_type l = ''+'')"

definition is_removed :: "Line \<Rightarrow> bool" where
  "is_removed l = (line_type l = ''-'')"

type_synonym Hunk = "Line list"

record PatchedFile =
  source_file :: string
  target_file :: string
  path :: string
  is_rename :: bool
  is_added_file :: bool
  is_removed_file :: bool
  hunks :: "Hunk list"

text \<open>
  Modelled from the spec: the library's \<open>PatchedFile.added\<close> and \<open>PatchedFile.removed\<close>
  properties are missing from the sources. The spec's parse operation keeps an additions
  tally that every added line increments and a deletions tally that every removed line
  increments, over all hunks of the file.
\<close>

definition added :: "PatchedFile \<Rightarrow> int" where
  "added pf = int (length (filter is_added (concat (hunks pf))))"

definition removed :: "PatchedFile \<Rightarrow> int" where
  "removed pf = int (length (filter is_removed (concat (hunks pf))))"

type_synonym PatchSet = "PatchedFile list"

text \<open>The exception of the library's constructor \<open>PatchSet(text)\<close>.\<close>

datatype error = UnidiffParseError

section \<open>The data classes of \<open>diff_parser.py\<close>\<close>

record LineChange =
  file_path :: string
  line_number :: int
  position :: int
  line_content :: string
  change_type :: string
  target_line_no :: "int option"
  source_line_no :: "int option"

record FileAnalysis =
  file_path :: string
  additions :: int
  deletions :: int
  is_new_file :: bool
  is_deleted_file :: bool
  is_renamed :: bool
  old_path :: "string option"
  line_changes :: "LineChange list"

record DiffParser =
  diff_text :: string
  patch_set :: "PatchSet option"

section \<open>\<open>DiffParser\<close>\<close>

text \<open>
  \<open>__init__\<close>: the library's constructor is a parameter \<open>PatchSet\<close>, a function from the
  text to a patch set or to the exception it raises. The call is not guarded, so an
  exception of the library leaves \<open>__init__\<close>.
\<close>

definition DiffParser_init :: "(string \<Rightarrow> error + PatchSet) \<Rightarrow> string \<Rightarrow> error + DiffParser" where
  "DiffParser_init PatchSet text =
     (if py_strip text \<noteq> []
      then (case PatchSet text of
              Inl e \<Rightarrow> Inl e
            | Inr ps \<Rightarrow> Inr \<lparr>diff_text = text, patch_set = Some ps\<rparr>)
      else Inr \<lparr>diff_text = text, patch_set = None\<rparr>)"

text \<open>
  \<open>not self.patch_set\<close>: true for \<open>None\<close> and, a \<open>PatchSet\<close> being a list, for a patch set
  without files.
\<close>

definition no_patch_set :: "DiffParser \<Rightarrow> bool" where
  "no_patch_set p = (case patch_set p of None \<Rightarrow> True | Some ps \<Rightarrow> ps = [])"

text \<open>The files iterated by \<open>for patched_file in self.patch_set\<close>.\<close>

definition patched_files :: "DiffParser \<Rightarrow> PatchedFile list" where
  "patched_files p = (case patch_set p of None \<Rightarrow> [] | Some ps \<Rightarrow> ps)"

definition get_files :: "DiffParser \<Rightarrow> string list" where
  "get_files p = (if no_patch_set p then [] else map path (patched_files p))"

text \<open>\<open>_find_file\<close>: the first patched file with the path.\<close>

fun find_file_in :: "PatchedFile list \<Rightarrow> string \<Rightarrow> PatchedFile option" where
  "find_file_in [] fp = None"
| "find_file_in (pf # pfs) fp = (if path pf = fp then Some pf else find_file_in pfs fp)"

definition find_file :: "DiffParser \<Rightarrow> string \<Rightarrow> PatchedFile option" where
  "find_file p fp = (if no_patch_set p then None else find_file_in (patched_files p) fp)"

text \<open>
  \<open>_analyze_file\<close>: the two nested loops thread the position counter and the list of
  line changes; \<open>analyze_hunk\<close> is the inner loop, \<open>analyze_hunks\<close> the outer one.
\<close>

definition line_change_of :: "string \<Rightarrow> int \<Rightarrow> Line \<Rightarrow> LineChange" where
  "line_change_of fp pos l =
     \<lparr>LineChange.file_path = fp,
      line_number = py_or (Line.target_line_no l) (py_or (Line.source_line_no l) 0),
      position = pos,
      line_content = rstrip_newline (line_value l),
      change_type = (if is_added l then ''added''
                     else if is_removed l then ''removed'' else ''context''),
      target_line_no = Line.target_line_no l,
      source_line_no = Line.source_line_no l\<rparr>"

fun analyze_hunk :: "string \<Rightarrow> Hunk \<Rightarrow> int \<times> LineChange list \<Rightarrow> int \<times> LineChange list" where
  "analyze_hunk fp [] st = st"
| "analyze_hunk fp (l # ls) (pos, acc) =
     analyze_hunk fp ls (pos + 1, acc @ [line_change_of fp (pos + 1) l])"

fun analyze_hunks :: "string \<Rightarrow> Hunk list \<Rightarrow> int \<times> LineChange list \<Rightarrow> int \<times> LineChange list" where
  "analyze_hunks fp [] st = st"
| "analyze_hunks fp (h # hs) st = analyze_hunks fp hs (analyze_hunk fp h st)"

definition analyze_file :: "PatchedFile \<Rightarrow> FileAnalysis" where
  "analyze_file pf =
     \<lparr>FileAnalysis.file_path = path pf,
      additions = added pf,
      deletions = removed pf,
      is_new_file = is_added_file pf,
      is_deleted_file = is_removed_file pf,
      is_renamed = is_rename pf,
      old_path = (if is_rename pf then Some (source_file pf) else None),
      line_changes = snd (analyze_hunks (path pf) (hunks pf) (0, []))\<rparr>"

text \<open>
  \<open>get_file_analysis\<close>: \<open>not patched_file\<close> is true for \<open>None\<close> and, a \<open>PatchedFile\<close> being
  a list of hunks, for a file without hunks.
\<close>

definition get_file_analysis :: "DiffParser \<Rightarrow> string \<Rightarrow> FileAnalysis option" where
  "get_file_analysis p fp =
     (if no_patch_set p then None
      else (case find_file p fp of
              None \<Rightarrow> None
            | Some pf \<Rightarrow> if hunks pf = [] then None else Some (analyze_file pf)))"

definition get_all_file_analyses :: "DiffParser \<Rightarrow> FileAnalysis list" where
  "get_all_file_analyses p = (if no_patch_set p then [] else map analyze_file (patched_files p))"

text \<open>
  \<open>get_added_lines_with_positions\<close>: a position counter of its own per file; the result
  dictionary is a map from the path to the list of tuples.
\<close>

type_synonym added_line = "int \<times> int option \<times> string"

fun added_hunk :: "Hunk \<Rightarrow> int \<times> added_line list \<Rightarrow> int \<times> added_line list" where
  "added_hunk [] st = st"
| "added_hunk (l # ls) (pos, acc) =
     added_hunk ls
       (pos + 1,
        if is_added l
        then acc @ [(pos + 1, Line.target_line_no l, rstrip_newline (line_value l))]
        else acc)"

fun added_hunks :: "Hunk list \<Rightarrow> int \<times> added_line list \<Rightarrow> int \<times> added_line list" where
  "added_hunks [] st = st"
| "added_hunks (h # hs) st = added_hunks hs (added_hunk h st)"

definition added_lines_of :: "PatchedFile \<Rightarrow> added_line list" where
  "added_lines_of pf = snd (added_hunks (hunks pf) (0, []))"

fun added_files :: "PatchedFile list \<Rightarrow> (string \<rightharpoonup> added_line list) \<Rightarrow> (string \<rightharpoonup> added_line list)" where
  "added_files [] result = result"
| "added_files (pf # pfs) result =
     added_files pfs
       (if added_lines_of pf \<noteq> [] then result(path pf \<mapsto> added_lines_of pf) else result)"

definition get_added_lines_with_positions :: "DiffParser \<Rightarrow> (string \<rightharpoonup> added_line list)" where
  "get_added_lines_with_positions p =
     (if no_patch_set p then Map.empty else added_files (patched_files p) Map.empty)"

text \<open>
  \<open>get_modified_lines_context\<close>: \<open>line.target_line_no and ...\<close> is false for \<open>None\<close> and
  for \<open>0\<close>.
\<close>

definition in_context :: "int \<Rightarrow> int \<Rightarrow> Line \<Rightarrow> bool" where
  "in_context n w l =
     (case Line.target_line_no l of
        None \<Rightarrow> False
      | Some t \<Rightarrow> t \<noteq> 0 \<and> \<bar>t - n\<bar> \<le> w)"

definition context_line :: "Line \<Rightarrow> string" where
  "context_line l =
     (if is_added l then ''+'' else if is_removed l then ''-'' else '' '')
       @ '' '' @ py_rstrip (line_value l)"

fun context_hunk :: "int \<Rightarrow> int \<Rightarrow> Hunk \<Rightarrow> string list \<Rightarrow> string list" where
  "context_hunk n w [] acc = acc"
| "context_hunk n w (l # ls) acc =
     context_hunk n w ls (if in_context n w l then acc @ [context_line l] else acc)"

fun context_hunks :: "int \<Rightarrow> int \<Rightarrow> Hunk list \<Rightarrow> string list \<Rightarrow> string list" where
  "context_hunks n w [] acc = acc"
| "context_hunks n w (h # hs) acc = context_hunks n w hs (context_hunk n w h acc)"

definition get_modified_lines_context :: "DiffParser \<Rightarrow> string \<Rightarrow> int \<Rightarrow> int \<Rightarrow> string option" where
  "get_modified_lines_context p fp n w =
     (case find_file p fp of
        None \<Rightarrow> None
      | Some pf \<Rightarrow>
          if hunks pf = [] then None
          else (let target_lines = context_hunks n w (hunks pf) []
                in if target_lines \<noteq> [] then Some (py_join ''\<newline>'' target_lines) else None))"

text \<open>\<open>get_statistics\<close>: the dictionary literal as its list of items.\<close>

definition get_statistics :: "DiffParser \<Rightarrow> (string \<times> int) list" where
  "get_statistics p =
     (if no_patch_set p then [(''files'', 0), (''additions'', 0), (''deletions'', 0)]
      else [(''files'', int (length (patched_files p))),
            (''additions'', sum_list (map added (patched_files p))),
            (''deletions'', sum_list (map removed (patched_files p)))])"

section \<open>Example patch sets\<close>

text \<open>
  A patch set of two files, an existing file changed in two hunks and a new file, and the
  diff text it is the parse of.
\<close>

definition example_file :: PatchedFile where
  "example_file =
     \<lparr>source_file = ''a/example.py'', target_file = ''b/example.py'', path = ''example.py'',
      is_rename = False, is_added_file = False, is_removed_file = False,
      hunks =
        [[\<lparr>line_value = ''def f():\<newline>'', line_type = '' '',
            source_line_no = Some 1, target_line_no = Some 1\<rparr>,
          \<lparr>line_value = ''    return 1\<newline>'', line_type = ''-'',
            source_line_no = Some 2, target_line_no = None\<rparr>,
          \<lparr>line_value = ''    return 2\<newline>'', line_type = ''+'',
            source_line_no = None, target_line_no = Some 2\<rparr>],
         [\<lparr>line_value = ''x = 1\<newline>'', line_type = '' '',
            source_line_no = Some 10, target_line_no = Some 10\<rparr>,
          \<lparr>line_value = ''y = 2\<newline>'', line_type = ''+'',
            source_line_no = None, target_line_no = Some 11\<rparr>]]\<rparr>"

definition new_file :: PatchedFile where
  "new_file =
     \<lparr>source_file = ''/dev/null'', target_file = ''b/new.py'', path = ''new.py'',
      is_rename = False, is_added_file = True, is_removed_file = False,
      hunks =
        [[\<lparr>line_value = ''a = 0\<newline>'', line_type = ''+'',
            source_line_no = None, target_line_no = Some 1\<rparr>]]\<rparr>"

definition example_text :: string where
  "example_text =
     ''--- a/example.py\<newline>+++ b/example.py\<newline>'' @
     ''@@ -1,2 +1,2 @@\<newline> def f():\<newline>-    return 1\<newline>+    return 2\<newline>'' @
     ''@@ -10 +10,2 @@\<newline> x = 1\<newline>+y = 2\<newline>'' @
     ''--- /dev/null\<newline>+++ b/new.py\<newline>@@ -0,0 +1 @@\<newline>+a = 0\<newline>''"

definition example_parser :: DiffParser where
  "example_parser = \<lparr>diff_text = example_text, patch_set = Some [example_file, new_file]\<rparr>"

text \<open>
  A patch set with two sections for one path, as the library builds it for a text in which
  two \<open>diff --git a/dup.py b/dup.py\<close> sections follow each other (two patches of the same
  file in one text): the first section removes a line, the second adds one.
\<close>

definition dup_removed :: PatchedFile where
  "dup_removed =
     \<lparr>source_file = ''a/dup.py'', target_file = ''b/dup.py'', path = ''dup.py'',
      is_rename = False, is_added_file = False, is_removed_file = False,
      hunks =
        [[\<lparr>line_value = ''old\<newline>'', line_type = ''-'',
            source_line_no = Some 5, target_line_no = None\<rparr>]]\<rparr>"

definition dup_added :: PatchedFile where
  "dup_added =
     \<lparr>source_file = ''a/dup.py'', target_file = ''b/dup.py'', path = ''dup.py'',
      is_rename = False, is_added_file = False, is_removed_file = False,
      hunks =
        [[\<lparr>line_value = ''keep\<newline>'', line_type = '' '',
            source_line_no = Some 1, target_line_no = Some 1\<rparr>,
          \<lparr>line_value = ''new\<newline>'', line_type = ''+'',
            source_line_no = None, target_line_no = Some 2\<rparr>]]\<rparr>"

definition dup_parser :: DiffParser where
  "dup_parser =
     \<lparr>diff_text =
        ''diff --git a/dup.py b/dup.py\<newline>--- a/dup.py\<newline>+++ b/dup.py\<newline>'' @
        ''@@ -5 +4,0 @@\<newline>-old\<newline>'' @
        ''diff --git a/dup.py b/dup.py\<newline>--- a/dup.py\<newline>+++ b/dup.py\<newline>'' @
        ''@@ -1 +1,2 @@\<newline> keep\<newline>+new\<newline>'',
      patch_set = Some [dup_removed, dup_added]\<rparr>"

text \<open>
  An instance of the library parameter: a constructor that answers with
  \<open>UnidiffParseError\<close>, as the library does for a hunk whose body ends before the line
  counts of its header are reached. In \<open>short_hunk_text\<close> the second file's header
  announces two lines and one follows.
\<close>

definition PatchSet_rejecting :: "string \<Rightarrow> error + PatchSet" where
  "PatchSet_rejecting text = Inl UnidiffParseError"

definition short_hunk_text :: string where
  "short_hunk_text =
     ''--- a/one.py\<newline>+++ b/one.py\<newline>@@ -1 +1 @@\<newline>-x\<newline>+y\<newline>'' @
     ''--- a/two.py\<newline>+++ b/two.py\<newline>@@ -1,2 +1,2 @@\<newline> x\<newline>''"

text \<open>
  An instance of the library parameter that accepts the text and answers the example
  patch set.
\<close>

definition PatchSet_example :: "string \<Rightarrow> error + PatchSet" where
  "PatchSet_example text = Inr [example_file, new_file]"

text \<open>
  A patch set whose only hunk places the target side at line 0 (header
  \<open>@@ -0,0 +0,1 @@\<close>): the added line carries the target line number 0.
\<close>

definition zero_line :: Line where
  "zero_line = \<lparr>line_value = ''first\<newline>'', line_type = ''+'',
     source_line_no = None, target_line_no = Some 0\<rparr>"

definition zero_file :: PatchedFile where
  "zero_file =
     \<lparr>source_file = ''a/zero.py'', target_file = ''b/zero.py'', path = ''zero.py'',
      is_rename = False, is_added_file = False, is_removed_file = False,
      hunks = [[zero_line]]\<rparr>"

definition zero_parser :: DiffParser where
  "zero_parser =
     \<lparr>diff_text =
        ''--- a/zero.py\<newline>+++ b/zero.py\<newline>@@ -0,0 +0,1 @@\<newline>+first\<newline>'',
      patch_set = Some [zero_file]\<rparr>"

text \<open>
  The patch set of a pure rename in git's format: from the section header
  \<open>diff --git a/old.py b/new.py\<close> the library keeps the source file \<open>a/old.py\<close> and the
  target file \<open>b/new.py\<close>, answers \<open>new.py\<close> as the path, and there is no hunk.
\<close>

definition rename_file :: PatchedFile where
  "rename_file =
     \<lparr>source_file = ''a/old.py'', target_file = ''b/new.py'', path = ''new.py'',
      is_rename = True, is_added_file = False, is_removed_file = False,
      hunks = []\<rparr>"

definition rename_parser :: DiffParser where
  "rename_parser =
     \<lparr>diff_text =
        ''diff --git a/old.py b/new.py\<newline>similarity index 100%\<newline>'' @
        ''rename from old.py\<newline>rename to new.py\<newline>'',
      patch_set = Some [rename_file]\<rparr>"

section \<open>The loops in closed form\<close>

lemma upto_split_first: "[pos + 1..pos + int (Suc n)] = (pos + 1) # [pos + 1 + 1..pos + 1 + int n]"
  by (subst upto_rec1) (simp_all add: algebra_simps)

lemma analyze_hunk_eq:
  "analyze_hunk fp ls (pos, acc) =
     (pos + int (length ls), acc @ map2 (line_change_of fp) [pos + 1..pos + int (length ls)] ls)"
proof (induction ls arbitrary: pos acc)
  case Nil
  show ?case by simp
next
  case (Cons l ls)
  have "analyze_hunk fp (l # ls) (pos, acc) =
          analyze_hunk fp ls (pos + 1, acc @ [line_change_of fp (pos + 1) l])"
    by simp
  also have "\<dots> = (pos + 1 + int (length ls),
      (acc @ [line_change_of fp (pos + 1) l]) @
        map2 (line_change_of fp) [pos + 1 + 1..pos + 1 + int (length ls)] ls)"
    by (rule Cons.IH)
  also have "\<dots> = (pos + int (length (l # ls)),
      acc @ map2 (line_change_of fp) [pos + 1..pos + int (length (l # ls))] (l # ls))"
    unfolding length_Cons upto_split_first by simp
  finally show ?case .
qed

lemma analyze_hunk_append:
  "analyze_hunk fp (xs @ ys) st = analyze_hunk fp ys (analyze_hunk fp xs st)"
  by (induction fp xs st rule: analyze_hunk.induct) simp_all

lemma analyze_hunks_concat: "analyze_hunks fp hs st = analyze_hunk fp (concat hs) st"
  by (induction hs arbitrary: st) (simp_all add: analyze_hunk_append)

lemma line_changes_analyze_file:
  "line_changes (analyze_file pf) =
     map2 (line_change_of (path pf)) [1..int (length (concat (hunks pf)))] (concat (hunks pf))"
  by (simp add: analyze_file_def analyze_hunks_concat analyze_hunk_eq)

lemma position_line_change_of: "LineChange.position (line_change_of fp pos l) = pos"
  by (simp add: line_change_of_def)

lemma positions_analyze_file:
  "map LineChange.position (line_changes (analyze_file pf)) = [1..int (length (concat (hunks pf)))]"
proof -
  have "LineChange.position \<circ> (\<lambda>(pos, l). line_change_of (path pf) pos l) = fst"
    by (auto simp: position_line_change_of)
  then show ?thesis
    by (simp add: line_changes_analyze_file)
qed

lemma get_all_file_analyses_eq: "get_all_file_analyses p = map analyze_file (patched_files p)"
  by (simp add: get_all_file_analyses_def no_patch_set_def patched_files_def split: option.splits)

lemma get_files_eq: "get_files p = map path (patched_files p)"
  by (simp add: get_files_def no_patch_set_def patched_files_def split: option.splits)

lemma find_file_eq: "find_file p fp = find_file_in (patched_files p) fp"
  by (simp add: find_file_def no_patch_set_def patched_files_def split: option.splits)

lemma find_file_in_Some: "find_file_in pfs fp = Some pf \<Longrightarrow> pf \<in> set pfs \<and> path pf = fp"
  by (induction pfs) (auto split: if_splits)

lemma get_file_analysis_Some:
  "get_file_analysis p fp = Some fa \<Longrightarrow>
     \<exists>pf\<in>set (patched_files p). path pf = fp \<and> hunks pf \<noteq> [] \<and> fa = analyze_file pf"
  by (auto simp: get_file_analysis_def find_file_eq split: if_splits option.splits
      dest: find_file_in_Some)

lemma length_line_changes: "length (line_changes (analyze_file pf)) = length (concat (hunks pf))"
  by (simp add: line_changes_analyze_file)

lemma example_analyses:
  "get_all_file_analyses example_parser = [analyze_file example_file, analyze_file new_file]"
  by (simp add: get_all_file_analyses_eq patched_files_def example_parser_def)

lemma change_type_added: "(change_type (line_change_of fp pos l) = ''added'') = is_added l"
  by (simp add: line_change_of_def)

lemma change_type_removed: "(change_type (line_change_of fp pos l) = ''removed'') = is_removed l"
  by (auto simp: line_change_of_def is_added_def is_removed_def)

lemma length_filter_zip_snd:
  "length ps = length ls \<Longrightarrow> length (filter (\<lambda>(p, l). P l) (zip ps ls)) = length (filter P ls)"
proof -
  assume len: "length ps = length ls"
  have "length (filter (\<lambda>(p, l). P l) (zip ps ls)) = length (filter P (map snd (zip ps ls)))"
    by (simp add: filter_map comp_def case_prod_unfold)
  with len show ?thesis by simp
qed

lemma count_changes:
  assumes "\<And>pos l. Q (line_change_of fp pos l) = P l"
  shows "length (filter Q (map2 (line_change_of fp) [1..int (length ls)] ls)) = length (filter P ls)"
proof -
  have "filter Q (map2 (line_change_of fp) [1..int (length ls)] ls) =
          map (\<lambda>(p, l). line_change_of fp p l)
            (filter (\<lambda>(p, l). P l) (zip [1..int (length ls)] ls))"
    by (simp add: filter_map comp_def case_prod_unfold assms)
  then show ?thesis
    by (simp add: length_filter_zip_snd)
qed

lemma counts_analyze_file:
  "additions (analyze_file pf) =
     int (length (filter (\<lambda>lc. change_type lc = ''added'') (line_changes (analyze_file pf))))"
  "deletions (analyze_file pf) =
     int (length (filter (\<lambda>lc. change_type lc = ''removed'') (line_changes (analyze_file pf))))"
proof -
  show "additions (analyze_file pf) =
     int (length (filter (\<lambda>lc. change_type lc = ''added'') (line_changes (analyze_file pf))))"
    unfolding line_changes_analyze_file
    by (subst count_changes [where P = is_added])
      (simp_all add: change_type_added analyze_file_def added_def)
  show "deletions (analyze_file pf) =
     int (length (filter (\<lambda>lc. change_type lc = ''removed'') (line_changes (analyze_file pf))))"
    unfolding line_changes_analyze_file
    by (subst count_changes [where P = is_removed])
      (simp_all add: change_type_removed analyze_file_def removed_def)
qed

lemma example_get_file_analysis:
  "get_file_analysis example_parser ''example.py'' = Some (analyze_file example_file)"
  by (simp add: get_file_analysis_def find_file_eq no_patch_set_def patched_files_def
      example_parser_def example_file_def)

lemma py_strip_blank:
  assumes "\<forall>c\<in>set text. py_isspace c"
  shows "py_strip text = []"
proof -
  from assms have d: "dropWhile py_isspace (rev text) = []"
    by simp
  show ?thesis
    unfolding py_strip_def py_lstrip_def py_rstrip_def d by simp
qed

lemma py_strip_Nil_iff: "(py_strip text = []) = (\<forall>c\<in>set text. py_isspace c)"
proof
  assume s: "py_strip text = []"
  show "\<forall>c\<in>set text. py_isspace c"
  proof (rule ccontr)
    assume "\<not> (\<forall>c\<in>set text. py_isspace c)"
    then have "dropWhile py_isspace (rev text) \<noteq> []"
      by simp
    then obtain x xs where r: "dropWhile py_isspace (rev text) = x # xs"
      by (cases "dropWhile py_isspace (rev text)") auto
    then have nx: "\<not> py_isspace x"
      by (metis hd_dropWhile list.sel(1) list.distinct(1))
    have "py_rstrip text = rev xs @ [x]"
      by (simp add: py_rstrip_def r)
    then have "py_strip text \<noteq> []"
      using nx by (simp add: py_strip_def py_lstrip_def)
    with s show False by simp
  qed
next
  assume "\<forall>c\<in>set text. py_isspace c"
  then show "py_strip text = []" by (rule py_strip_blank)
qed

lemma added_hunk_eq:
  "added_hunk ls (pos, acc) =
     (pos + int (length ls),
      acc @ map (\<lambda>(q, l). (q, Line.target_line_no l, rstrip_newline (line_value l)))
              (filter (\<lambda>(q, l). is_added l) (zip [pos + 1..pos + int (length ls)] ls)))"
proof (induction ls arbitrary: pos acc)
  case Nil
  show ?case by simp
next
  case (Cons l ls)
  show ?case
    unfolding added_hunk.simps Cons.IH length_Cons upto_split_first by simp
qed

lemma added_hunk_append: "added_hunk (xs @ ys) st = added_hunk ys (added_hunk xs st)"
  by (induction xs st rule: added_hunk.induct) simp_all

lemma added_hunks_concat: "added_hunks hs st = added_hunk (concat hs) st"
  by (induction hs arbitrary: st) (simp_all add: added_hunk_append)

lemma added_lines_of_eq:
  "added_lines_of pf =
     map (\<lambda>(q, l). (q, Line.target_line_no l, rstrip_newline (line_value l)))
       (filter (\<lambda>(q, l). is_added l)
          (zip [1..int (length (concat (hunks pf)))] (concat (hunks pf))))"
  by (simp add: added_lines_of_def added_hunks_concat added_hunk_eq)

lemma added_lines_of_Nil_iff:
  "(added_lines_of pf = []) = (filter is_added (concat (hunks pf)) = [])"
proof -
  have "length (added_lines_of pf) = length (filter is_added (concat (hunks pf)))"
    by (simp add: added_lines_of_eq length_filter_zip_snd)
  then show ?thesis
    by (metis length_0_conv)
qed

lemma get_added_lines_eq:
  "get_added_lines_with_positions p = added_files (patched_files p) Map.empty"
  by (simp add: get_added_lines_with_positions_def no_patch_set_def patched_files_def
      split: option.splits)

lemma added_files_other:
  "fp \<notin> path ` set pfs \<Longrightarrow> added_files pfs m fp = m fp"
  by (induction pfs arbitrary: m) auto

lemma added_files_distinct:
  "distinct (map path pfs) \<Longrightarrow> pf \<in> set pfs \<Longrightarrow>
     added_files pfs m (path pf) =
       (if added_lines_of pf = [] then m (path pf) else Some (added_lines_of pf))"
proof (induction pfs arbitrary: m)
  case Nil
  then show ?case by simp
next
  case (Cons a pfs)
  show ?case
  proof (cases "pf = a")
    case True
    with Cons.prems have "path pf \<notin> path ` set pfs" by auto
    then show ?thesis using True by (simp add: added_files_other)
  next
    case False
    with Cons.prems have in_rest: "pf \<in> set pfs" and ne: "path a \<noteq> path pf"
      and d: "distinct (map path pfs)" by auto
    show ?thesis using Cons.IH [OF d in_rest] ne by simp
  qed
qed

lemma added_files_Some:
  "added_files pfs m fp = Some als \<Longrightarrow>
     m fp = Some als \<or> (\<exists>pf\<in>set pfs. path pf = fp \<and> als = added_lines_of pf \<and> als \<noteq> [])"
proof (induction pfs arbitrary: m)
  case Nil
  then show ?case by simp
next
  case (Cons a pfs)
  from Cons.prems Cons.IH [of "if added_lines_of a \<noteq> [] then m(path a \<mapsto> added_lines_of a) else m"]
  show ?case by (auto split: if_splits)
qed

lemma find_file_in_distinct:
  "distinct (map path pfs) \<Longrightarrow> pf \<in> set pfs \<Longrightarrow> find_file_in pfs (path pf) = Some pf"
  by (induction pfs) auto

lemma dup_added_lines:
  "get_added_lines_with_positions dup_parser ''dup.py'' = Some [(2, Some 2, ''new'')]"
  by (simp add: get_added_lines_eq patched_files_def dup_parser_def dup_removed_def dup_added_def
      added_lines_of_def is_added_def rstrip_newline_def)

lemma example_paths_distinct: "distinct (map path (patched_files example_parser))"
  by (simp add: patched_files_def example_parser_def example_file_def new_file_def)

lemma added_lines_agree:
  "added_lines_of pf =
     map (\<lambda>lc. (LineChange.position lc, LineChange.target_line_no lc, line_content lc))
       (filter (\<lambda>lc. change_type lc = ''added'') (line_changes (analyze_file pf)))"
proof -
  have "filter (\<lambda>lc. change_type lc = ''added'')
          (map (\<lambda>(q, l). line_change_of (path pf) q l) zs) =
        map (\<lambda>(q, l). line_change_of (path pf) q l) (filter (\<lambda>(q, l). is_added l) zs)" for zs
    by (simp add: filter_map comp_def case_prod_unfold change_type_added)
  then show ?thesis
    by (simp add: added_lines_of_eq line_changes_analyze_file comp_def case_prod_unfold
        line_change_of_def)
qed

lemma added_lines_of_hunks: "added_lines_of pf \<noteq> [] \<Longrightarrow> hunks pf \<noteq> []"
  by (auto simp: added_lines_of_def)

lemma example_added_lines:
  "get_added_lines_with_positions example_parser ''example.py'' =
     Some [(3, Some 2, ''    return 2''), (5, Some 11, ''y = 2'')]"
  by (simp add: get_added_lines_eq patched_files_def example_parser_def example_file_def
      new_file_def added_lines_of_def is_added_def rstrip_newline_def)

lemma dup_get_file_analysis:
  "get_file_analysis dup_parser ''dup.py'' = Some (analyze_file dup_removed)"
  by (simp add: get_file_analysis_def find_file_eq no_patch_set_def patched_files_def
      dup_parser_def dup_removed_def)

lemma context_hunk_eq:
  "context_hunk n w ls acc = acc @ map context_line (filter (in_context n w) ls)"
  by (induction ls arbitrary: acc) simp_all

lemma context_hunks_eq:
  "context_hunks n w hs acc = acc @ map context_line (filter (in_context n w) (concat hs))"
  by (induction hs arbitrary: acc) (simp_all add: context_hunk_eq)

section \<open>Positions\<close>

text \<open>
  C2: in every FileAnalysis of a parsed diff, whether it comes from
  \<open>get_all_file_analyses\<close> or from \<open>get_file_analysis\<close>, the positions of the successive
  line changes are 1, 2, 3, ... up to the number of line changes: the counter starts at 1
  in each file, grows by one per line and is not reset between the hunks of a file.
\<close>

theorem position_monotonic:
  assumes "fa \<in> set (get_all_file_analyses p) \<or> get_file_analysis p fp = Some fa"
  shows "map LineChange.position (line_changes fa) = [1..int (length (line_changes fa))]"
proof -
  from assms obtain pf where "fa = analyze_file pf"
    by (auto simp: get_all_file_analyses_eq dest: get_file_analysis_Some)
  then show ?thesis
    by (simp only: positions_analyze_file length_line_changes)
qed

theorem position_monotonic_witness:
  "analyze_file example_file \<in> set (get_all_file_analyses example_parser) \<and>
   map LineChange.position (line_changes (analyze_file example_file)) = [1, 2, 3, 4, 5] \<and>
   analyze_file new_file \<in> set (get_all_file_analyses example_parser) \<and>
   map LineChange.position (line_changes (analyze_file new_file)) = [1]"
proof -
  have a: "analyze_file example_file \<in> set (get_all_file_analyses example_parser)"
    and b: "analyze_file new_file \<in> set (get_all_file_analyses example_parser)"
    by (simp_all add: example_analyses)
  have la: "length (line_changes (analyze_file example_file)) = 5"
    and lb: "length (line_changes (analyze_file new_file)) = 1"
    by (simp_all add: length_line_changes example_file_def new_file_def)
  have u5: "[1..5::int] = [1, 2, 3, 4, 5]" and u1: "[1..1::int] = [1]"
    by code_simp+
  from position_monotonic [of "analyze_file example_file" example_parser "''example.py''"]
    position_monotonic [of "analyze_file new_file" example_parser "''new.py''"]
    a b la lb u5 u1
  show ?thesis by simp
qed

section \<open>Added lines with positions\<close>

text \<open>
  C3, as amended: when the paths of the files of the parsed diff are pairwise distinct,
  the mapping of \<open>get_added_lines_with_positions\<close> holds at the path of each file exactly
  the added lines of that file as (position, target line number, content) tuples in
  position order, a file with zero added lines is absent as a key, and so is every path
  that is not a file of the diff.
\<close>

theorem added_lines_distinct_paths:
  assumes "distinct (map path (patched_files p))"
  shows "(\<forall>pf\<in>set (patched_files p).
            get_added_lines_with_positions p (path pf) =
              (if filter is_added (concat (hunks pf)) = [] then None
               else Some (map (\<lambda>(pos, l). (pos, Line.target_line_no l, rstrip_newline (line_value l)))
                            (filter (\<lambda>(pos, l). is_added l)
                               (zip [1..int (length (concat (hunks pf)))] (concat (hunks pf))))))) \<and>
         (\<forall>fp. fp \<notin> path ` set (patched_files p) \<longrightarrow> get_added_lines_with_positions p fp = None)"
proof (intro conjI ballI allI impI)
  fix pf
  assume "pf \<in> set (patched_files p)"
  with assms show "get_added_lines_with_positions p (path pf) =
      (if filter is_added (concat (hunks pf)) = [] then None
       else Some (map (\<lambda>(pos, l). (pos, Line.target_line_no l, rstrip_newline (line_value l)))
                    (filter (\<lambda>(pos, l). is_added l)
                       (zip [1..int (length (concat (hunks pf)))] (concat (hunks pf))))))"
    by (simp add: get_added_lines_eq added_files_distinct added_lines_of_Nil_iff [symmetric])
      (simp add: added_lines_of_eq)
next
  fix fp
  assume "fp \<notin> path ` set (patched_files p)"
  then show "get_added_lines_with_positions p fp = None"
    by (simp add: get_added_lines_eq added_files_other)
qed

text \<open>The amended C3 on the example patch set.\<close>

theorem added_lines_distinct_paths_witness:
  "distinct (map path (patched_files example_parser)) \<and>
   get_added_lines_with_positions example_parser ''example.py'' =
     Some [(3, Some 2, ''    return 2''), (5, Some 11, ''y = 2'')] \<and>
   get_added_lines_with_positions example_parser ''new.py'' = Some [(1, Some 1, ''a = 0'')] \<and>
   get_added_lines_with_positions example_parser ''other.py'' = None"
proof -
  have m: "example_file \<in> set (patched_files example_parser)"
    "new_file \<in> set (patched_files example_parser)"
    "''other.py'' \<notin> path ` set (patched_files example_parser)"
    by (simp_all add: patched_files_def example_parser_def example_file_def new_file_def)
  have u: "[1..5::int] = [1, 2, 3, 4, 5]" "[1..1::int] = [1]"
    by code_simp+
  have e: "get_added_lines_with_positions example_parser (path example_file) =
      Some [(3, Some 2, ''    return 2''), (5, Some 11, ''y = 2'')]"
    using added_lines_distinct_paths [OF example_paths_distinct, THEN conjunct1, THEN bspec, OF m(1)]
    unfolding example_file_def by (simp add: is_added_def rstrip_newline_def u)
  have n: "get_added_lines_with_positions example_parser (path new_file) =
      Some [(1, Some 1, ''a = 0'')]"
    using added_lines_distinct_paths [OF example_paths_distinct, THEN conjunct1, THEN bspec, OF m(2)]
    unfolding new_file_def by (simp add: is_added_def rstrip_newline_def u)
  have o: "get_added_lines_with_positions example_parser ''other.py'' = None"
    using added_lines_distinct_paths [OF example_paths_distinct] m(3) by blast
  from e n o example_paths_distinct show ?thesis
    by (simp add: example_file_def new_file_def)
qed

text \<open>
  C3 as stated fails when two sections share a path: \<open>dup_removed\<close> is a file of the diff
  with zero added lines, and its path is a key of the mapping all the same, with the added
  line of the other section.
\<close>

theorem added_lines_duplicate_counterexample:
  "dup_removed \<in> set (patched_files dup_parser) \<and>
   filter is_added (concat (hunks dup_removed)) = [] \<and>
   get_added_lines_with_positions dup_parser (path dup_removed) = Some [(2, Some 2, ''new'')]"
  using dup_added_lines
  by (simp add: patched_files_def dup_parser_def dup_removed_def is_added_def)

section \<open>Statistics and counts\<close>

text \<open>
  C4: \<open>get_statistics\<close> returns as \<open>files\<close> the number of FileAnalysis entries, as
  \<open>additions\<close> the sum of their additions and as \<open>deletions\<close> the sum of their deletions.
\<close>

theorem statistics_aggregate:
  "get_statistics p =
     [(''files'', int (length (get_all_file_analyses p))),
      (''additions'', sum_list (map additions (get_all_file_analyses p))),
      (''deletions'', sum_list (map deletions (get_all_file_analyses p)))]"
proof -
  have "additions \<circ> analyze_file = added" and "deletions \<circ> analyze_file = removed"
    by (simp_all add: analyze_file_def fun_eq_iff)
  then show ?thesis
    by (simp add: get_statistics_def get_all_file_analyses_eq no_patch_set_def
        patched_files_def split: option.splits)
qed

text \<open>
  C5: in every FileAnalysis of a parsed diff, from \<open>get_all_file_analyses\<close> or from
  \<open>get_file_analysis\<close>, \<open>additions\<close> is the number of its line changes of kind added and
  \<open>deletions\<close> the number of its line changes of kind removed. The counts are the library's
  \<open>added\<close> and \<open>removed\<close>, modelled from the spec.
\<close>

theorem count_consistency:
  assumes "fa \<in> set (get_all_file_analyses p) \<or> get_file_analysis p fp = Some fa"
  shows "additions fa = int (length (filter (\<lambda>lc. change_type lc = ''added'') (line_changes fa))) \<and>
         deletions fa = int (length (filter (\<lambda>lc. change_type lc = ''removed'') (line_changes fa)))"
proof -
  from assms obtain pf where "fa = analyze_file pf"
    by (auto simp: get_all_file_analyses_eq dest: get_file_analysis_Some)
  then show ?thesis
    using counts_analyze_file [of pf] by simp
qed

text \<open>C5 on the example patch set.\<close>

theorem count_consistency_witness:
  "get_file_analysis example_parser ''example.py'' = Some (analyze_file example_file) \<and>
   additions (analyze_file example_file) = 2 \<and>
   length (filter (\<lambda>lc. change_type lc = ''added'') (line_changes (analyze_file example_file))) = 2 \<and>
   deletions (analyze_file example_file) = 1 \<and>
   length (filter (\<lambda>lc. change_type lc = ''removed'') (line_changes (analyze_file example_file))) = 1"
proof -
  have a: "additions (analyze_file example_file) = 2"
    and d: "deletions (analyze_file example_file) = 1"
    by (simp_all add: analyze_file_def added_def removed_def is_added_def is_removed_def
        example_file_def)
  from count_consistency [of "analyze_file example_file" example_parser "''example.py''"]
    example_get_file_analysis a d
  show ?thesis by simp
qed

section \<open>Empty input\<close>

text \<open>
  C6: for the empty string and for every text of whitespace only, whatever the library
  would answer, the constructor returns a parser without a patch set, on which
  \<open>get_files\<close> and \<open>get_all_file_analyses\<close> are empty and \<open>get_statistics\<close> is all zeros.
\<close>

theorem empty_input:
  assumes "\<forall>c\<in>set text. py_isspace c"
  shows "DiffParser_init PS text = Inr \<lparr>diff_text = text, patch_set = None\<rparr> \<and>
         get_files \<lparr>diff_text = text, patch_set = None\<rparr> = [] \<and>
         get_all_file_analyses \<lparr>diff_text = text, patch_set = None\<rparr> = [] \<and>
         get_statistics \<lparr>diff_text = text, patch_set = None\<rparr> =
           [(''files'', 0), (''additions'', 0), (''deletions'', 0)]"
  using assms
  by (simp add: DiffParser_init_def py_strip_blank get_files_def get_all_file_analyses_def
      get_statistics_def no_patch_set_def)

text \<open>C6 on the empty string and on a space, a line feed and a tab.\<close>

theorem empty_input_witness:
  "DiffParser_init PatchSet_rejecting [] = Inr \<lparr>diff_text = [], patch_set = None\<rparr> \<and>
   py_isspace (CHR '' '') \<and> py_isspace (CHR 0x0A) \<and> py_isspace (CHR 0x09) \<and>
   DiffParser_init PatchSet_rejecting [CHR '' '', CHR 0x0A, CHR 0x09] =
     Inr \<lparr>diff_text = [CHR '' '', CHR 0x0A, CHR 0x09], patch_set = None\<rparr> \<and>
   get_files \<lparr>diff_text = [CHR '' '', CHR 0x0A, CHR 0x09], patch_set = None\<rparr> = [] \<and>
   get_statistics \<lparr>diff_text = [CHR '' '', CHR 0x0A, CHR 0x09], patch_set = None\<rparr> =
     [(''files'', 0), (''additions'', 0), (''deletions'', 0)]"
proof -
  have a: "\<forall>c\<in>set []. py_isspace c" by simp
  have c: "py_isspace (CHR '' '')" "py_isspace (CHR 0x0A)" "py_isspace (CHR 0x09)"
    by (simp_all add: py_isspace_def)
  then have b: "\<forall>c\<in>set [CHR '' '', CHR 0x0A, CHR 0x09]. py_isspace c"
    by simp
  from empty_input [OF a, of PatchSet_rejecting] empty_input [OF b, of PatchSet_rejecting] c
  show ?thesis by simp
qed

section \<open>The changed files\<close>

text \<open>
  C9, as amended: \<open>get_files\<close> returns the paths of the files in the order of the parsed
  patch set, one entry per file section, the i-th entry being the path of the i-th
  FileAnalysis; its entries are pairwise distinct exactly when the sections' paths are.
\<close>

theorem get_files_order:
  "get_files p = map path (patched_files p) \<and>
   get_files p = map FileAnalysis.file_path (get_all_file_analyses p) \<and>
   distinct (get_files p) = distinct (map path (patched_files p))"
  by (simp add: get_files_eq get_all_file_analyses_eq analyze_file_def comp_def)

text \<open>
  C9 as stated fails when two sections share a path: the path is listed twice.
\<close>

theorem get_files_duplicate_counterexample:
  "get_files dup_parser = [''dup.py'', ''dup.py''] \<and> \<not> distinct (get_files dup_parser)"
  by (simp add: get_files_eq patched_files_def dup_parser_def dup_removed_def dup_added_def)

section \<open>The two position counters\<close>

text \<open>
  C10, as amended: when the paths of the files of the parsed diff are pairwise distinct,
  the tuples that \<open>get_added_lines_with_positions\<close> holds at a path are exactly the
  (position, target line number, content) of the line changes of kind added in the
  FileAnalysis that \<open>get_file_analysis\<close> returns for that path, in the same order.
\<close>

theorem added_positions_agree:
  assumes "distinct (map path (patched_files p))"
    and "get_added_lines_with_positions p fp = Some als"
  shows "\<exists>fa. get_file_analysis p fp = Some fa \<and>
           als = map (\<lambda>lc. (LineChange.position lc, LineChange.target_line_no lc, line_content lc))
                   (filter (\<lambda>lc. change_type lc = ''added'') (line_changes fa)) \<and>
           map (\<lambda>(pos, t, c). (pos, t)) als =
             map (\<lambda>lc. (LineChange.position lc, LineChange.target_line_no lc))
               (filter (\<lambda>lc. change_type lc = ''added'') (line_changes fa))"
proof -
  from assms(2) obtain pf where pf: "pf \<in> set (patched_files p)" "path pf = fp"
    "als = added_lines_of pf" "als \<noteq> []"
    using added_files_Some [of "patched_files p" Map.empty fp als]
    by (auto simp: get_added_lines_eq)
  from assms(1) pf(1,2) have f: "find_file_in (patched_files p) fp = Some pf"
    using find_file_in_distinct by blast
  from pf(3,4) have h: "hunks pf \<noteq> []"
    using added_lines_of_hunks by blast
  from pf(1) have np: "\<not> no_patch_set p"
    by (cases "patch_set p") (auto simp: no_patch_set_def patched_files_def)
  have g: "get_file_analysis p fp = Some (analyze_file pf)"
    by (simp add: get_file_analysis_def find_file_eq f h np)
  have a: "als = map (\<lambda>lc. (LineChange.position lc, LineChange.target_line_no lc, line_content lc))
      (filter (\<lambda>lc. change_type lc = ''added'') (line_changes (analyze_file pf)))"
    unfolding pf(3) by (rule added_lines_agree)
  have "map (\<lambda>(pos, t, c). (pos, t)) als =
      map (\<lambda>lc. (LineChange.position lc, LineChange.target_line_no lc))
        (filter (\<lambda>lc. change_type lc = ''added'') (line_changes (analyze_file pf)))"
    by (subst a) (simp add: comp_def)
  with g a show ?thesis by blast
qed

text \<open>The amended C10 on the example patch set.\<close>

theorem added_positions_agree_witness:
  "distinct (map path (patched_files example_parser)) \<and>
   get_added_lines_with_positions example_parser ''example.py'' =
     Some [(3, Some 2, ''    return 2''), (5, Some 11, ''y = 2'')] \<and>
   get_file_analysis example_parser ''example.py'' = Some (analyze_file example_file) \<and>
   map (\<lambda>lc. (LineChange.position lc, LineChange.target_line_no lc))
     (filter (\<lambda>lc. change_type lc = ''added'') (line_changes (analyze_file example_file))) =
     [(3, Some 2), (5, Some 11)]"
  using added_positions_agree [OF example_paths_distinct example_added_lines]
    example_paths_distinct example_added_lines example_get_file_analysis
  by simp

text \<open>
  C10 as stated fails when two sections share a path: the mapping holds the added line of
  the last section, \<open>get_file_analysis\<close> analyses the first, which has no added line.
\<close>

theorem added_positions_duplicate_counterexample:
  "get_added_lines_with_positions dup_parser ''dup.py'' = Some [(2, Some 2, ''new'')] \<and>
   get_file_analysis dup_parser ''dup.py'' = Some (analyze_file dup_removed) \<and>
   map (\<lambda>lc. (LineChange.position lc, LineChange.target_line_no lc))
     (filter (\<lambda>lc. change_type lc = ''added'') (line_changes (analyze_file dup_removed))) = []"
  using dup_added_lines dup_get_file_analysis
  by (simp add: analyze_file_def dup_removed_def line_change_of_def is_added_def is_removed_def)

section \<open>Context of a line\<close>

text \<open>
  C8, as amended: \<open>get_modified_lines_context\<close> takes the first file with the given path
  and returns the lines of its hunks whose target line number is present, is not 0 and
  differs from the given line number by at most the window, each as its marker (\<open>+\<close>, \<open>-\<close>
  or a space, by its kind), a space and the content without trailing whitespace, joined by
  line feeds in position order; it returns \<open>None\<close> when no file has the path or no line
  is selected.
\<close>

theorem lines_context:
  "get_modified_lines_context p fp n w =
     (case find_file_in (patched_files p) fp of
        None \<Rightarrow> None
      | Some pf \<Rightarrow>
          (let sel = filter (\<lambda>l. case Line.target_line_no l of
                                   None \<Rightarrow> False
                                 | Some t \<Rightarrow> t \<noteq> 0 \<and> \<bar>t - n\<bar> \<le> w)
                       (concat (hunks pf))
           in if sel = [] then None
              else Some (py_join ''\<newline>''
                     (map (\<lambda>l. (if is_added l then ''+'' else if is_removed l then ''-'' else '' '')
                                 @ '' '' @ py_rstrip (line_value l)) sel))))"
proof (cases "find_file_in (patched_files p) fp")
  case None
  then show ?thesis
    by (simp add: get_modified_lines_context_def find_file_eq)
next
  case (Some pf)
  have ic: "in_context n w = (\<lambda>l. case Line.target_line_no l of
                                   None \<Rightarrow> False
                                 | Some t \<Rightarrow> t \<noteq> 0 \<and> \<bar>t - n\<bar> \<le> w)"
    by (simp add: in_context_def fun_eq_iff)
  have cl: "context_line = (\<lambda>l. (if is_added l then ''+'' else if is_removed l then ''-'' else '' '')
                                 @ '' '' @ py_rstrip (line_value l))"
    by (simp add: context_line_def fun_eq_iff)
  show ?thesis
  proof (cases "hunks pf = []")
    case True
    with Some show ?thesis
      by (simp add: get_modified_lines_context_def find_file_eq)
  next
    case False
    with Some show ?thesis
      unfolding ic [symmetric] cl [symmetric]
      by (simp add: get_modified_lines_context_def find_file_eq context_hunks_eq Let_def)
  qed
qed

text \<open>The amended C8 on the example patch set: line 2 with a window of 1.\<close>

theorem lines_context_witness:
  "get_modified_lines_context example_parser ''example.py'' 2 1 =
     Some ''  def f():\<newline>+     return 2''"
  by (simp add: lines_context patched_files_def example_parser_def example_file_def
      is_added_def is_removed_def py_rstrip_def py_isspace_def)

text \<open>
  C8 as stated fails for a line whose target line number is 0: it is within the window of
  line 1 and the result is \<open>None\<close>, because \<open>line.target_line_no and ...\<close> takes 0 for
  absent.
\<close>

theorem lines_context_zero_counterexample:
  "find_file zero_parser ''zero.py'' = Some zero_file \<and>
   zero_line \<in> set (concat (hunks zero_file)) \<and>
   Line.target_line_no zero_line = Some 0 \<and> \<bar>0 - 1\<bar> \<le> (3::int) \<and>
   get_modified_lines_context zero_parser ''zero.py'' 1 3 = None"
  by (simp add: get_modified_lines_context_def find_file_eq patched_files_def zero_parser_def
      zero_file_def zero_line_def in_context_def)

section \<open>A rename without line changes\<close>

text \<open>
  C7: the code at the rename of \<open>old.py\<close> to \<open>new.py\<close> without line changes.
  \<open>get_files\<close> lists \<open>new.py\<close> and \<open>get_all_file_analyses\<close> builds its FileAnalysis with
  \<open>is_renamed\<close> set and no additions or deletions, but with the prior path \<open>a/old.py\<close>, the
  library's source file with its prefix; \<open>get_file_analysis\<close> returns \<open>None\<close> for
  \<open>new.py\<close>, because a patched file without hunks is an empty list and \<open>not patched_file\<close>
  holds for it.
\<close>

theorem rename_without_hunks:
  "get_files rename_parser = [''new.py''] \<and>
   get_all_file_analyses rename_parser =
     [\<lparr>FileAnalysis.file_path = ''new.py'', additions = 0, deletions = 0,
       is_new_file = False, is_deleted_file = False, is_renamed = True,
       old_path = Some ''a/old.py'', line_changes = []\<rparr>] \<and>
   get_file_analysis rename_parser ''new.py'' = None"
  by (simp add: get_files_eq get_all_file_analyses_eq get_file_analysis_def find_file_eq
      no_patch_set_def patched_files_def rename_parser_def rename_file_def analyze_file_def
      added_def removed_def)

section \<open>Errors of the library\<close>

text \<open>
  C1, as amended: the constructor raises exactly when the text is not whitespace only and
  the library's constructor raises on it, and then with the library's exception; there is
  no recovery. When the library accepts a text that is not whitespace only, the parser
  holds the library's patch set and \<open>get_files\<close> lists the path of each of its files.
\<close>

theorem init_raises_iff:
  "((DiffParser_init PS text = Inl e) = ((\<exists>c\<in>set text. \<not> py_isspace c) \<and> PS text = Inl e)) \<and>
   (PS text = Inr ps \<longrightarrow> (\<exists>c\<in>set text. \<not> py_isspace c) \<longrightarrow>
      DiffParser_init PS text = Inr \<lparr>diff_text = text, patch_set = Some ps\<rparr> \<and>
      get_files \<lparr>diff_text = text, patch_set = Some ps\<rparr> = map path ps)"
proof -
  have s: "(py_strip text \<noteq> []) = (\<exists>c\<in>set text. \<not> py_isspace c)"
    by (simp add: py_strip_Nil_iff)
  show ?thesis
    unfolding DiffParser_init_def s
    by (auto simp: get_files_eq patched_files_def split: sum.splits)
qed

text \<open>The amended C1 on a text that the library accepts.\<close>

theorem init_raises_iff_witness:
  "CHR ''-'' \<in> set example_text \<and> \<not> py_isspace (CHR ''-'') \<and>
   PatchSet_example example_text = Inr [example_file, new_file] \<and>
   DiffParser_init PatchSet_example example_text = Inr example_parser \<and>
   get_files example_parser = [''example.py'', ''new.py''] \<and>
   DiffParser_init PatchSet_example example_text \<noteq> Inl UnidiffParseError"
proof -
  have c: "CHR ''-'' \<in> set example_text" "\<not> py_isspace (CHR ''-'')"
    by (simp_all add: example_text_def py_isspace_def)
  then have n: "\<exists>c\<in>set example_text. \<not> py_isspace c"
    by blast
  have a: "PatchSet_example example_text = Inr [example_file, new_file]"
    by (simp add: PatchSet_example_def)
  from init_raises_iff [of PatchSet_example example_text UnidiffParseError
      "[example_file, new_file]"] n a
  have "DiffParser_init PatchSet_example example_text =
          Inr \<lparr>diff_text = example_text, patch_set = Some [example_file, new_file]\<rparr>"
    and "get_files \<lparr>diff_text = example_text, patch_set = Some [example_file, new_file]\<rparr> =
          map path [example_file, new_file]"
    and "DiffParser_init PatchSet_example example_text \<noteq> Inl UnidiffParseError"
    by simp_all
  with c a show ?thesis
    by (simp add: example_parser_def example_file_def new_file_def)
qed

text \<open>
  C1 as stated fails as soon as the library rejects the text: the exception leaves
  \<open>__init__\<close>, no parser is built and no file is listed.
\<close>

theorem init_raises_counterexample:
  "DiffParser_init PatchSet_rejecting short_hunk_text = Inl UnidiffParseError"
  by (simp add: DiffParser_init_def PatchSet_rejecting_def short_hunk_text_def py_strip_def
      py_lstrip_def py_rstrip_def py_isspace_def)

end
